theory Spec2Isabelle
  imports Main
begin

section \<open>Panic recovery filter of the API server (pkg/server/filters/wrap.go)\<close>

text \<open>
  The filter wraps an HTTP handler so that a panic raised while one request is served is
  recovered, logged, classified against \<open>http.ErrAbortHandler\<close> and answered. Everything
  the filter does beyond control flow is a call to a collaborator (klog, net/http, the
  metrics package, the request-info resolver, the error reporter). The model records each
  such call, with its arguments, as one event of a chronological trace.
\<close>

subsection \<open>Go values\<close>

text \<open>
  The value a deferred \<open>recover()\<close> hands to the crash handler has static type
  \<open>interface{}\<close>. The constructors are the dynamic types the development needs: strings,
  integers, runtime errors, and two pointer types that implement \<open>error\<close>
  (\<open>*errors.errorString\<close> and the \<open>*fmt.wrapError\<close> built by \<open>%w\<close>), each with the
  address it points to.
\<close>

type_synonym addr = nat

datatype go_value =
    VString string
  | VInt int
  | VRuntimeError string
  | VErrorString addr string
  | VWrapError addr string go_value

text \<open>
  Go's \<open>==\<close> on two interface values: equal dynamic types and equal dynamic values.
  Pointers are equal when they hold the same address, whatever text they point to.
\<close>

fun iface_eq :: "go_value \<Rightarrow> go_value \<Rightarrow> bool" where
  "iface_eq (VString s) (VString t) = (s = t)"
| "iface_eq (VInt i) (VInt j) = (i = j)"
| "iface_eq (VRuntimeError s) (VRuntimeError t) = (s = t)"
| "iface_eq (VErrorString p _) (VErrorString q _) = (p = q)"
| "iface_eq (VWrapError p _ _) (VWrapError q _ _) = (p = q)"
| "iface_eq _ _ = False"

text \<open>
  \<open>http.ErrAbortHandler\<close> is the package-level variable
  \<open>errors.New("net/http: abort Handler")\<close>: one pointer, allocated once.
\<close>

definition ErrAbortHandler_addr :: addr where
  "ErrAbortHandler_addr = 1"

definition ErrAbortHandler :: go_value where
  "ErrAbortHandler = VErrorString ErrAbortHandler_addr ''net/http: abort Handler''"

definition StatusInternalServerError :: nat where
  "StatusInternalServerError = 500"

subsection \<open>Requests, the response writer and the trace of calls\<close>

record request =
  Method :: string
  RequestURI :: string

text \<open>
  Modelled from the spec: the resolved identity of a request (verb, resource), declared in
  pkg/endpoints/request; the filter only passes it on.
\<close>

record request_info =
  Verb :: string
  Resource :: string

datatype event =
    HeaderGet string
  | RuntimeStack nat bool
  | KlogErrorf string "go_value list"
  | NewRequestInfo request
  | RecordRequestAbort request "request_info option"
  | HandleError string "go_value list"
  | HttpError string nat

text \<open>
  \<open>HeaderGet k\<close> is \<open>w.Header().Get(k)\<close>; \<open>RuntimeStack n all\<close> is \<open>runtime.Stack\<close> on
  a buffer of \<open>n\<close> bytes; \<open>KlogErrorf f args\<close> is \<open>klog.Errorf(f, args...)\<close>;
  \<open>HandleError f args\<close> is \<open>runtime.HandleError(fmt.Errorf(f, args...))\<close>;
  \<open>HttpError msg code\<close> is the status and the message that \<open>http.Error(w, msg, code)\<close>
  writes to the response, the only such write of the filter. The second argument of
  \<open>RecordRequestAbort\<close> is \<open>None\<close> for a nil pointer.
\<close>

record world =
  resp_header :: "string \<rightharpoonup> string list"
  trace :: "event list"

definition emit :: "event \<Rightarrow> world \<Rightarrow> world" where
  "emit e w = w\<lparr>trace := trace w @ [e]\<rparr>"

text \<open>\<open>http.Header.Get\<close>: the first value stored under the key, the empty string if none.\<close>

definition Header_Get :: "(string \<rightharpoonup> string list) \<Rightarrow> string \<Rightarrow> string" where
  "Header_Get h key = (case h key of None \<Rightarrow> [] | Some [] \<Rightarrow> [] | Some (v # vs) \<Rightarrow> v)"

fun is_response_write :: "event \<Rightarrow> bool" where
  "is_response_write (HttpError _ _) = True"
| "is_response_write _ = False"

fun is_log :: "event \<Rightarrow> bool" where
  "is_log (KlogErrorf _ _) = True"
| "is_log _ = False"

fun is_metric :: "event \<Rightarrow> bool" where
  "is_metric (RecordRequestAbort _ _) = True"
| "is_metric _ = False"

fun is_report :: "event \<Rightarrow> bool" where
  "is_report (HandleError _ _) = True"
| "is_report _ = False"

fun is_header_read :: "event \<Rightarrow> bool" where
  "is_header_read (HeaderGet _) = True"
| "is_header_read _ = False"

subsection \<open>The environment of one crash-handler call\<close>

text \<open>
  \<open>HeaderAuditID\<close> is the constant \<open>auditinternal.HeaderAuditID\<close> (declared in
  pkg/apis/audit), \<open>cur_stack\<close> the full stack text of the calling goroutine,
  \<open>other_stacks\<close> the text of every other goroutine, and \<open>ReallyCrash\<close> the process-wide
  policy of \<open>runtime.HandleCrash\<close>.
\<close>

record env =
  HeaderAuditID :: string
  cur_stack :: string
  other_stacks :: "string list"
  ReallyCrash :: bool

subsection \<open>currentStack\<close>

text \<open>
  \<open>runtime.Stack(buf, all)\<close> writes the stack text of the calling goroutine, and of the
  others after it when \<open>all\<close> is set, into \<open>buf\<close> as far as it fits, and returns the
  number of bytes written.
\<close>

definition runtime_Stack :: "env \<Rightarrow> string \<Rightarrow> bool \<Rightarrow> string \<times> nat" where
  "runtime_Stack E buf all =
     (let txt = cur_stack E @ (if all then concat (other_stacks E) else []);
          n = min (length buf) (length txt)
      in (take n txt @ drop n buf, n))"

text \<open>The slice expression \<open>s[:n]\<close> panics when \<open>n\<close> exceeds the capacity.\<close>

definition slice_to :: "string \<Rightarrow> nat \<Rightarrow> go_value + string" where
  "slice_to s n =
     (if n \<le> length s then Inr (take n s)
      else Inl (VRuntimeError ''slice bounds out of range''))"

definition stack_buf_size :: nat where
  "stack_buf_size = 50 * 1024"

definition currentStack :: "env \<Rightarrow> go_value + string" where
  "currentStack E =
     (let stack = replicate stack_buf_size (CHR 0x00);
          (stack', n) = runtime_Stack E stack False
      in case slice_to stack' n of
           Inl p \<Rightarrow> Inl p
         | Inr s \<Rightarrow> Inr (CHR 0x0A # s))"

subsection \<open>The crash handler built by WithPanicRecovery\<close>

datatype outcome = Returned | Panicked go_value

text \<open>
  The resolver returns Go's pair \<open>(info, err)\<close>: a pointer that may be nil and an error
  that may be nil.
\<close>

type_synonym resolver = "request \<Rightarrow> request_info option \<times> go_value option"

definition stack_log_format :: string where
  "stack_log_format = ''As soon as the panic occurs, immediately output the error stack, method: %v, URI: %v, auditID: %v, current error: %v, error stack: %v''"

definition abort_log_format :: string where
  "abort_log_format = ''Encountered an http.ErrAbortHandler error, method: %v, URI: %v, auditID: %v, current error: %v''"

definition abort_report_format :: string where
  "abort_report_format = ''timeout or abort while handling, method: %v, URI: %q, auditID: %q''"

definition panic_body :: string where
  "panic_body = ''This request caused apiserver to panic. Look in the logs for details.''"

definition summary_log_format :: string where
  "summary_log_format = ''apiserver panic'd on method: %v, URI: %v, auditID: %v''"

definition abort_path :: "resolver \<Rightarrow> request \<Rightarrow> string \<Rightarrow> go_value \<Rightarrow> world \<Rightarrow> world" where
  "abort_path resolve req auditID err w0 =
     (let w1 = emit (KlogErrorf abort_log_format
                 [VString (Method req), VString (RequestURI req), VString auditID, err]) w0;
          (info, rerr) = resolve req;
          w2 = emit (NewRequestInfo req) w1;
          w3 = (if rerr \<noteq> None then emit (RecordRequestAbort req None) w2
                else emit (RecordRequestAbort req info) w2)
      in emit (HandleError abort_report_format
                 [VString (Method req), VString (RequestURI req), VString auditID]) w3)"

text \<open>
  \<open>http.Error(w, msg, code)\<close> of net/http works on the header of \<open>w\<close> first: it
  deletes \<open>Content-Length\<close> and sets \<open>Content-Type\<close> and \<open>X-Content-Type-Options\<close>;
  then it writes the status and the message.
\<close>

definition error_header :: "(string \<rightharpoonup> string list) \<Rightarrow> (string \<rightharpoonup> string list)" where
  "error_header h =
     ((h(''Content-Length'' := None))
        (''Content-Type'' \<mapsto> [''text/plain; charset=utf-8'']))
        (''X-Content-Type-Options'' \<mapsto> [''nosniff''])"

definition http_Error :: "string \<Rightarrow> nat \<Rightarrow> world \<Rightarrow> world" where
  "http_Error msg code w =
     emit (HttpError msg code) (w\<lparr>resp_header := error_header (resp_header w)\<rparr>)"

definition generic_path :: "request \<Rightarrow> string \<Rightarrow> world \<Rightarrow> world" where
  "generic_path req auditID w0 =
     (let w1 = http_Error panic_body StatusInternalServerError w0
      in emit (KlogErrorf summary_log_format
                 [VString (Method req), VString (RequestURI req), VString auditID]) w1)"

definition crashHandler :: "env \<Rightarrow> resolver \<Rightarrow> request \<Rightarrow> go_value \<Rightarrow> world \<Rightarrow> outcome \<times> world" where
  "crashHandler E resolve req err w0 =
     (let auditID = Header_Get (resp_header w0) (HeaderAuditID E);
          w1 = emit (HeaderGet (HeaderAuditID E)) w0;
          w2 = emit (RuntimeStack stack_buf_size False) w1
      in case currentStack E of
           Inl p \<Rightarrow> (Panicked p, w2)
         | Inr stack \<Rightarrow>
             (let w3 = emit (KlogErrorf stack_log_format
                          [VString (Method req), VString (RequestURI req), VString auditID,
                           err, VString stack]) w2
              in if iface_eq err ErrAbortHandler
                 then (Returned, abort_path resolve req auditID err w3)
                 else (Returned, generic_path req auditID w3)))"

subsection \<open>The recovery guard\<close>

type_synonym handler = "request \<Rightarrow> world \<Rightarrow> outcome \<times> world"

text \<open>
  Modelled from the spec: \<open>runtime.HandleCrash\<close> of k8s.io/apimachinery, run as a
  deferred call. It does nothing when the guarded body returned. When the body panicked
  with \<open>v\<close> it calls the handler it was given with \<open>v\<close> and then, by the process-wide
  policy, suppresses \<open>v\<close> or raises it again.
\<close>

definition HandleCrash :: "bool \<Rightarrow> (go_value \<Rightarrow> world \<Rightarrow> outcome \<times> world) \<Rightarrow> outcome \<times> world \<Rightarrow> outcome \<times> world" where
  "HandleCrash reallyCrash additionalHandler r =
     (case r of
        (Returned, w) \<Rightarrow> (Returned, w)
      | (Panicked v, w) \<Rightarrow>
          (case additionalHandler v w of
             (Panicked v', w') \<Rightarrow> (Panicked v', w')
           | (Returned, w') \<Rightarrow> if reallyCrash then (Panicked v, w') else (Returned, w')))"

text \<open>
  \<open>withLogging\<close> stands for \<open>httplog.WithLogging(_, httplog.DefaultStacktracePred)\<close>, a
  decorator declared in pkg/server/httplog; it is a parameter here.
\<close>

definition withPanicRecovery :: "(handler \<Rightarrow> handler) \<Rightarrow> bool \<Rightarrow> handler \<Rightarrow> (request \<Rightarrow> go_value \<Rightarrow> world \<Rightarrow> outcome \<times> world) \<Rightarrow> handler" where
  "withPanicRecovery withLogging reallyCrash inner onCrash =
     (let logged = withLogging inner
      in (\<lambda>req w. HandleCrash reallyCrash (\<lambda>err. onCrash req err) (logged req w)))"

definition WithPanicRecovery :: "env \<Rightarrow> (handler \<Rightarrow> handler) \<Rightarrow> handler \<Rightarrow> resolver \<Rightarrow> handler" where
  "WithPanicRecovery E withLogging inner resolve =
     withPanicRecovery withLogging (ReallyCrash E) inner (crashHandler E resolve)"

subsection \<open>Projections of a trace\<close>

text \<open>The calls made between an earlier world and a later one.\<close>

definition events_since :: "world \<Rightarrow> world \<Rightarrow> event list" where
  "events_since w w' = drop (length (trace w)) (trace w')"

definition response_writes :: "event list \<Rightarrow> event list" where
  "response_writes evs = filter is_response_write evs"

definition log_records :: "event list \<Rightarrow> event list" where
  "log_records evs = filter is_log evs"

definition metric_calls :: "event list \<Rightarrow> event list" where
  "metric_calls evs = filter is_metric evs"

definition reports :: "event list \<Rightarrow> event list" where
  "reports evs = filter is_report evs"

definition header_reads :: "event list \<Rightarrow> event list" where
  "header_reads evs = filter is_header_read evs"

subsection \<open>Concrete requests, handlers and collaborators\<close>

definition ex_env :: env where
  "ex_env = \<lparr>HeaderAuditID = ''Audit-ID'', cur_stack = ''goroutine 7 [running]:'',
             other_stacks = [''goroutine 8 [select]:''], ReallyCrash = False\<rparr>"

definition ex_env_other :: env where
  "ex_env_other = \<lparr>HeaderAuditID = ''Audit-ID'', cur_stack = ''goroutine 9 [running]:'',
             other_stacks = [], ReallyCrash = False\<rparr>"

definition ex_req :: request where
  "ex_req = \<lparr>Method = ''GET'', RequestURI = ''/api/v1/pods''\<rparr>"

definition ex_world :: world where
  "ex_world = \<lparr>resp_header = [''Audit-ID'' \<mapsto> [''a1b2'']], trace = []\<rparr>"

definition ex_world_no_audit :: world where
  "ex_world_no_audit = \<lparr>resp_header = Map.empty, trace = []\<rparr>"

definition ok_handler :: handler where
  "ok_handler req w = (Returned, w)"

definition boom_handler :: handler where
  "boom_handler req w = (Panicked (VString ''boom''), w)"

definition abort_handler :: handler where
  "abort_handler req w = (Panicked ErrAbortHandler, w)"

text \<open>A logging decorator that only delegates, and one whose own code panics after the
  inner handler has returned.\<close>

definition plain_logging :: "handler \<Rightarrow> handler" where
  "plain_logging h = h"

definition panicking_logging :: "handler \<Rightarrow> handler" where
  "panicking_logging h req w =
     (case h req w of
        (Returned, w') \<Rightarrow> (Panicked (VString ''logging wrapper''), w')
      | (Panicked v, w') \<Rightarrow> (Panicked v, w'))"

definition ok_resolver :: resolver where
  "ok_resolver req = (Some \<lparr>Verb = ''get'', Resource = ''pods''\<rparr>, None)"

definition failing_resolver :: resolver where
  "failing_resolver req = (None, Some (VErrorString 7 ''unable to resolve request info''))"

definition tick_handler :: "request \<Rightarrow> go_value \<Rightarrow> world \<Rightarrow> outcome \<times> world" where
  "tick_handler req err w = (Returned, emit (KlogErrorf ''tick'' [err]) w)"

section \<open>Shared lemmas\<close>

lemma trace_emit: "trace (emit e w) = trace w @ [e]"
  by (simp add: emit_def)

lemma resp_header_emit: "resp_header (emit e w) = resp_header w"
  by (simp add: emit_def)

lemma runtime_Stack_False:
  "runtime_Stack E buf False =
     (take (length buf) (cur_stack E) @ drop (min (length buf) (length (cur_stack E))) buf,
      min (length buf) (length (cur_stack E)))"
  by (simp add: runtime_Stack_def Let_def min_def)

lemma currentStack_eq: "currentStack E = Inr (CHR 0x0A # take stack_buf_size (cur_stack E))"
  by (simp add: currentStack_def runtime_Stack_False slice_to_def Let_def min_def)

lemma crashHandler_events:
  "crashHandler E resolve req err w =
     (Returned,
      w\<lparr>resp_header :=
          (if iface_eq err ErrAbortHandler then resp_header w
           else error_header (resp_header w)),
        trace := trace w @
         [HeaderGet (HeaderAuditID E),
          RuntimeStack stack_buf_size False,
          KlogErrorf stack_log_format
            [VString (Method req), VString (RequestURI req),
             VString (Header_Get (resp_header w) (HeaderAuditID E)), err,
             VString (CHR 0x0A # take stack_buf_size (cur_stack E))]] @
         (if iface_eq err ErrAbortHandler
          then [KlogErrorf abort_log_format
                  [VString (Method req), VString (RequestURI req),
                   VString (Header_Get (resp_header w) (HeaderAuditID E)), err],
                NewRequestInfo req,
                RecordRequestAbort req
                  (if snd (resolve req) \<noteq> None then None else fst (resolve req)),
                HandleError abort_report_format
                  [VString (Method req), VString (RequestURI req),
                   VString (Header_Get (resp_header w) (HeaderAuditID E))]]
          else [HttpError panic_body StatusInternalServerError,
                KlogErrorf summary_log_format
                  [VString (Method req), VString (RequestURI req),
                   VString (Header_Get (resp_header w) (HeaderAuditID E))]])\<rparr>)"
  by (simp add: crashHandler_def currentStack_eq abort_path_def generic_path_def
      http_Error_def emit_def Let_def split: prod.split)

lemma events_since_append: "trace w' = trace w @ evs \<Longrightarrow> events_since w w' = evs"
  by (simp add: events_since_def)

lemma HandleCrash_Returned: "HandleCrash rc h (Returned, w) = (Returned, w)"
  by (simp add: HandleCrash_def)

lemma HandleCrash_Panicked:
  "HandleCrash rc h (Panicked v, w) =
     (case h v w of
        (Panicked v', w') \<Rightarrow> (Panicked v', w')
      | (Returned, w') \<Rightarrow> if rc then (Panicked v, w') else (Returned, w'))"
  by (simp add: HandleCrash_def)

lemma withPanicRecovery_apply:
  "withPanicRecovery withLogging rc inner ch req w =
     HandleCrash rc (\<lambda>err. ch req err) (withLogging inner req w)"
  by (simp add: withPanicRecovery_def Let_def)

section \<open>Claims\<close>

text \<open>
  C1. When the handler dispatched by the filter panics with a value \<open>V\<close> that is not
  \<open>http.ErrAbortHandler\<close>, the wrapped handler makes exactly these calls after the
  panic, in this order: one read of the audit header, one stack capture, one
  unconditional stack log carrying \<open>V\<close>, one \<open>http.Error\<close> with status 500 and the fixed
  body, and one summary log. So exactly one response is written, the log records are the
  stack log followed by the summary log, and no metric or report call is made.
\<close>

theorem generic_panic_yields_500:
  assumes "withLogging inner req w = (Panicked V, w')"
    and "\<not> iface_eq V ErrAbortHandler"
  shows "events_since w' (snd (WithPanicRecovery E withLogging inner resolve req w)) =
           [HeaderGet (HeaderAuditID E),
            RuntimeStack (50 * 1024) False,
            KlogErrorf stack_log_format
              [VString (Method req), VString (RequestURI req),
               VString (Header_Get (resp_header w') (HeaderAuditID E)), V,
               VString (CHR 0x0A # take (50 * 1024) (cur_stack E))],
            HttpError ''This request caused apiserver to panic. Look in the logs for details.'' 500,
            KlogErrorf summary_log_format
              [VString (Method req), VString (RequestURI req),
               VString (Header_Get (resp_header w') (HeaderAuditID E))]]
       \<and> response_writes (events_since w' (snd (WithPanicRecovery E withLogging inner resolve req w))) =
           [HttpError ''This request caused apiserver to panic. Look in the logs for details.'' 500]
       \<and> log_records (events_since w' (snd (WithPanicRecovery E withLogging inner resolve req w))) =
           [KlogErrorf stack_log_format
              [VString (Method req), VString (RequestURI req),
               VString (Header_Get (resp_header w') (HeaderAuditID E)), V,
               VString (CHR 0x0A # take (50 * 1024) (cur_stack E))],
            KlogErrorf summary_log_format
              [VString (Method req), VString (RequestURI req),
               VString (Header_Get (resp_header w') (HeaderAuditID E))]]
       \<and> metric_calls (events_since w' (snd (WithPanicRecovery E withLogging inner resolve req w))) = []
       \<and> reports (events_since w' (snd (WithPanicRecovery E withLogging inner resolve req w))) = []"
proof -
  let ?r = "WithPanicRecovery E withLogging inner resolve req w"
  have r: "?r = HandleCrash (ReallyCrash E) (\<lambda>err. crashHandler E resolve req err) (Panicked V, w')"
    using assms(1) by (simp add: WithPanicRecovery_def withPanicRecovery_apply)
  have "trace (snd ?r) = trace w' @
           [HeaderGet (HeaderAuditID E),
            RuntimeStack stack_buf_size False,
            KlogErrorf stack_log_format
              [VString (Method req), VString (RequestURI req),
               VString (Header_Get (resp_header w') (HeaderAuditID E)), V,
               VString (CHR 0x0A # take stack_buf_size (cur_stack E))],
            HttpError panic_body StatusInternalServerError,
            KlogErrorf summary_log_format
              [VString (Method req), VString (RequestURI req),
               VString (Header_Get (resp_header w') (HeaderAuditID E))]]"
    using assms(2) by (simp add: r HandleCrash_Panicked crashHandler_events)
  then have "events_since w' (snd ?r) =
           [HeaderGet (HeaderAuditID E),
            RuntimeStack stack_buf_size False,
            KlogErrorf stack_log_format
              [VString (Method req), VString (RequestURI req),
               VString (Header_Get (resp_header w') (HeaderAuditID E)), V,
               VString (CHR 0x0A # take stack_buf_size (cur_stack E))],
            HttpError panic_body StatusInternalServerError,
            KlogErrorf summary_log_format
              [VString (Method req), VString (RequestURI req),
               VString (Header_Get (resp_header w') (HeaderAuditID E))]]"
    by (rule events_since_append)
  then show ?thesis
    by (simp add: response_writes_def log_records_def metric_calls_def reports_def
        stack_buf_size_def panic_body_def StatusInternalServerError_def)
qed

theorem generic_panic_yields_500_witness:
  "plain_logging boom_handler ex_req ex_world = (Panicked (VString ''boom''), ex_world)
   \<and> \<not> iface_eq (VString ''boom'') ErrAbortHandler
   \<and> events_since ex_world
        (snd (WithPanicRecovery ex_env plain_logging boom_handler ok_resolver ex_req ex_world)) =
       [HeaderGet ''Audit-ID'',
        RuntimeStack 51200 False,
        KlogErrorf stack_log_format
          [VString ''GET'', VString ''/api/v1/pods'', VString ''a1b2'', VString ''boom'',
           VString (CHR 0x0A # ''goroutine 7 [running]:'')],
        HttpError ''This request caused apiserver to panic. Look in the logs for details.'' 500,
        KlogErrorf summary_log_format
          [VString ''GET'', VString ''/api/v1/pods'', VString ''a1b2'']]"
proof -
  have h1: "plain_logging boom_handler ex_req ex_world = (Panicked (VString ''boom''), ex_world)"
    by (simp add: plain_logging_def boom_handler_def)
  have h2: "\<not> iface_eq (VString ''boom'') ErrAbortHandler"
    by (simp add: ErrAbortHandler_def)
  show ?thesis
    using h1 h2 generic_panic_yields_500 [where withLogging = plain_logging
        and inner = boom_handler and req = ex_req and w = ex_world and w' = ex_world
        and V = "VString ''boom''" and E = ex_env and resolve = ok_resolver]
    by (simp add: ex_env_def ex_req_def ex_world_def Header_Get_def)
qed

text \<open>
  C2. When the recovered value is \<open>http.ErrAbortHandler\<close>, the crash handler returns
  normally after exactly these calls: the audit header read, the stack capture, the
  unconditional stack log, the abort log, the request-info resolution, one
  \<open>metrics.RecordRequestAbort\<close> and the error report. Nothing is written to the
  response writer and its header is left as it was.
\<close>

theorem abort_panic_writes_nothing:
  assumes "iface_eq V ErrAbortHandler"
  shows "fst (crashHandler E resolve req V w) = Returned
       \<and> events_since w (snd (crashHandler E resolve req V w)) =
           [HeaderGet (HeaderAuditID E),
            RuntimeStack (50 * 1024) False,
            KlogErrorf stack_log_format
              [VString (Method req), VString (RequestURI req),
               VString (Header_Get (resp_header w) (HeaderAuditID E)), V,
               VString (CHR 0x0A # take (50 * 1024) (cur_stack E))],
            KlogErrorf abort_log_format
              [VString (Method req), VString (RequestURI req),
               VString (Header_Get (resp_header w) (HeaderAuditID E)), V],
            NewRequestInfo req,
            RecordRequestAbort req
              (if snd (resolve req) \<noteq> None then None else fst (resolve req)),
            HandleError abort_report_format
              [VString (Method req), VString (RequestURI req),
               VString (Header_Get (resp_header w) (HeaderAuditID E))]]
       \<and> response_writes (events_since w (snd (crashHandler E resolve req V w))) = []
       \<and> length (log_records (events_since w (snd (crashHandler E resolve req V w)))) = 2
       \<and> length (metric_calls (events_since w (snd (crashHandler E resolve req V w)))) = 1
       \<and> resp_header (snd (crashHandler E resolve req V w)) = resp_header w"
proof -
  let ?r = "crashHandler E resolve req V w"
  have "events_since w (snd ?r) =
           [HeaderGet (HeaderAuditID E),
            RuntimeStack stack_buf_size False,
            KlogErrorf stack_log_format
              [VString (Method req), VString (RequestURI req),
               VString (Header_Get (resp_header w) (HeaderAuditID E)), V,
               VString (CHR 0x0A # take stack_buf_size (cur_stack E))],
            KlogErrorf abort_log_format
              [VString (Method req), VString (RequestURI req),
               VString (Header_Get (resp_header w) (HeaderAuditID E)), V],
            NewRequestInfo req,
            RecordRequestAbort req
              (if snd (resolve req) \<noteq> None then None else fst (resolve req)),
            HandleError abort_report_format
              [VString (Method req), VString (RequestURI req),
               VString (Header_Get (resp_header w) (HeaderAuditID E))]]"
    using assms by (intro events_since_append) (simp add: crashHandler_events)
  moreover have "fst ?r = Returned" "resp_header (snd ?r) = resp_header w"
    using assms by (simp_all add: crashHandler_events)
  ultimately show ?thesis
    by (simp add: response_writes_def log_records_def metric_calls_def stack_buf_size_def)
qed

theorem abort_panic_writes_nothing_witness:
  "iface_eq ErrAbortHandler ErrAbortHandler
   \<and> fst (crashHandler ex_env failing_resolver ex_req ErrAbortHandler ex_world) = Returned
   \<and> events_since ex_world
        (snd (crashHandler ex_env failing_resolver ex_req ErrAbortHandler ex_world)) =
       [HeaderGet ''Audit-ID'',
        RuntimeStack 51200 False,
        KlogErrorf stack_log_format
          [VString ''GET'', VString ''/api/v1/pods'', VString ''a1b2'', ErrAbortHandler,
           VString (CHR 0x0A # ''goroutine 7 [running]:'')],
        KlogErrorf abort_log_format
          [VString ''GET'', VString ''/api/v1/pods'', VString ''a1b2'', ErrAbortHandler],
        NewRequestInfo ex_req,
        RecordRequestAbort ex_req None,
        HandleError abort_report_format
          [VString ''GET'', VString ''/api/v1/pods'', VString ''a1b2'']]
   \<and> response_writes (events_since ex_world
        (snd (crashHandler ex_env failing_resolver ex_req ErrAbortHandler ex_world))) = []"
proof -
  have h: "iface_eq ErrAbortHandler ErrAbortHandler"
    by (simp add: ErrAbortHandler_def)
  show ?thesis
    using h abort_panic_writes_nothing [where V = ErrAbortHandler and E = ex_env
        and resolve = failing_resolver and req = ex_req and w = ex_world]
    by (simp add: ex_env_def ex_req_def ex_world_def Header_Get_def failing_resolver_def
        response_writes_def)
qed

text \<open>
  C3. The guard runs its crash callback exactly when the handler it dispatches to panics,
  and then once: if the dispatched handler returns, the wrapped handler returns in the
  very world the handler left, whatever the callback is; if it panics with \<open>v\<close>, the
  result is the callback applied once to \<open>v\<close> and that world, followed by the re-raise
  policy. For the filter's own crash handler: no call at all on normal completion, one
  audit header read on a panic.
\<close>

theorem crash_handler_runs_iff_panic:
  "(withLogging inner req w = (Returned, w') \<longrightarrow>
      withPanicRecovery withLogging rc inner onCrash req w = (Returned, w'))
   \<and> (withLogging inner req w = (Panicked v, w') \<longrightarrow>
      withPanicRecovery withLogging rc inner onCrash req w =
        (case onCrash req v w' of
           (Panicked v', w'') \<Rightarrow> (Panicked v', w'')
         | (Returned, w'') \<Rightarrow> if rc then (Panicked v, w'') else (Returned, w'')))
   \<and> (withLogging inner req w = (Returned, w') \<longrightarrow>
      fst (WithPanicRecovery E withLogging inner resolve req w) = Returned
      \<and> events_since w' (snd (WithPanicRecovery E withLogging inner resolve req w)) = [])
   \<and> (withLogging inner req w = (Panicked v, w') \<longrightarrow>
      length (header_reads
        (events_since w' (snd (WithPanicRecovery E withLogging inner resolve req w)))) = 1)"
  by (simp add: WithPanicRecovery_def withPanicRecovery_apply HandleCrash_Returned
      HandleCrash_Panicked crashHandler_events events_since_def header_reads_def)

theorem crash_handler_runs_iff_panic_witness:
  "plain_logging ok_handler ex_req ex_world = (Returned, ex_world)
   \<and> withPanicRecovery plain_logging False ok_handler tick_handler ex_req ex_world =
       (Returned, ex_world)
   \<and> events_since ex_world
        (snd (WithPanicRecovery ex_env plain_logging ok_handler ok_resolver ex_req ex_world)) = []
   \<and> plain_logging boom_handler ex_req ex_world = (Panicked (VString ''boom''), ex_world)
   \<and> withPanicRecovery plain_logging False boom_handler tick_handler ex_req ex_world =
       (Returned, ex_world\<lparr>trace := [KlogErrorf ''tick'' [VString ''boom'']]\<rparr>)"
proof -
  have h1: "plain_logging ok_handler ex_req ex_world = (Returned, ex_world)"
    by (simp add: plain_logging_def ok_handler_def)
  have h2: "plain_logging boom_handler ex_req ex_world = (Panicked (VString ''boom''), ex_world)"
    by (simp add: plain_logging_def boom_handler_def)
  show ?thesis
    using h1 h2
      crash_handler_runs_iff_panic [where withLogging = plain_logging and inner = ok_handler
        and req = ex_req and w = ex_world and w' = ex_world and rc = False
        and onCrash = tick_handler and E = ex_env and resolve = ok_resolver]
      crash_handler_runs_iff_panic [where withLogging = plain_logging and inner = boom_handler
        and req = ex_req and w = ex_world and w' = ex_world and rc = False
        and onCrash = tick_handler and v = "VString ''boom''"]
    by (simp add: tick_handler_def emit_def ex_world_def)
qed

text \<open>
  C4. In every crash-handler call the unconditional log record, carrying the method, the
  URI, the audit ID, the recovered value and the captured stack, is emitted in a world
  \<open>w3\<close> reached without looking at the class of the value; the comparison with
  \<open>http.ErrAbortHandler\<close> and the calls of either branch act on \<open>w3\<close>, so the trace of
  \<open>w3\<close> is a prefix of the final trace and its log is the first log record.
\<close>

theorem stack_log_precedes_classification:
  "\<exists>w3. trace w3 = trace w @
           [HeaderGet (HeaderAuditID E),
            RuntimeStack (50 * 1024) False,
            KlogErrorf stack_log_format
              [VString (Method req), VString (RequestURI req),
               VString (Header_Get (resp_header w) (HeaderAuditID E)), err,
               VString (CHR 0x0A # take (50 * 1024) (cur_stack E))]]
        \<and> crashHandler E resolve req err w =
            (Returned,
             if iface_eq err ErrAbortHandler
             then abort_path resolve req (Header_Get (resp_header w) (HeaderAuditID E)) err w3
             else generic_path req (Header_Get (resp_header w) (HeaderAuditID E)) w3)
        \<and> take (length (trace w3)) (trace (snd (crashHandler E resolve req err w))) = trace w3
        \<and> take 1 (log_records (events_since w (snd (crashHandler E resolve req err w)))) =
            log_records (events_since w w3)"
proof -
  let ?w3 = "emit (KlogErrorf stack_log_format
              [VString (Method req), VString (RequestURI req),
               VString (Header_Get (resp_header w) (HeaderAuditID E)), err,
               VString (CHR 0x0A # take stack_buf_size (cur_stack E))])
             (emit (RuntimeStack stack_buf_size False) (emit (HeaderGet (HeaderAuditID E)) w))"
  have t: "trace ?w3 = trace w @
           [HeaderGet (HeaderAuditID E),
            RuntimeStack (50 * 1024) False,
            KlogErrorf stack_log_format
              [VString (Method req), VString (RequestURI req),
               VString (Header_Get (resp_header w) (HeaderAuditID E)), err,
               VString (CHR 0x0A # take (50 * 1024) (cur_stack E))]]"
    by (simp add: trace_emit stack_buf_size_def)
  have c: "crashHandler E resolve req err w =
            (Returned,
             if iface_eq err ErrAbortHandler
             then abort_path resolve req (Header_Get (resp_header w) (HeaderAuditID E)) err ?w3
             else generic_path req (Header_Get (resp_header w) (HeaderAuditID E)) ?w3)"
    by (simp add: crashHandler_def currentStack_eq Let_def)
  have p: "take (length (trace ?w3)) (trace (snd (crashHandler E resolve req err w))) = trace ?w3"
    by (simp add: crashHandler_events trace_emit)
  have l: "take 1 (log_records (events_since w (snd (crashHandler E resolve req err w)))) =
            log_records (events_since w ?w3)"
    by (simp add: crashHandler_events trace_emit events_since_def log_records_def)
  from t c p l show ?thesis by blast
qed

theorem stack_log_precedes_classification_witness:
  "\<exists>w3. trace w3 =
           [HeaderGet ''Audit-ID'',
            RuntimeStack 51200 False,
            KlogErrorf stack_log_format
              [VString ''GET'', VString ''/api/v1/pods'', VString ''a1b2'', VString ''boom'',
               VString (CHR 0x0A # ''goroutine 7 [running]:'')]]
        \<and> crashHandler ex_env ok_resolver ex_req (VString ''boom'') ex_world =
            (Returned, generic_path ex_req ''a1b2'' w3)"
  using stack_log_precedes_classification [where E = ex_env and resolve = ok_resolver
      and req = ex_req and err = "VString ''boom''" and w = ex_world]
  by (auto simp add: ex_env_def ex_req_def ex_world_def Header_Get_def ErrAbortHandler_def)

text \<open>
  C5. On the abort path the crash handler returns normally whatever the resolver answers.
  When the resolver returns an error the metric is recorded with a nil info; when it
  returns no error the metric is recorded with the info it returned. In both cases the
  error report is the one call that follows, and there is exactly one metric call and
  one report.
\<close>

theorem resolver_error_is_contained:
  assumes "iface_eq V ErrAbortHandler"
  shows "fst (crashHandler E resolve req V w) = Returned
       \<and> (snd (resolve req) \<noteq> None \<longrightarrow>
            drop 4 (events_since w (snd (crashHandler E resolve req V w))) =
              [NewRequestInfo req,
               RecordRequestAbort req None,
               HandleError abort_report_format
                 [VString (Method req), VString (RequestURI req),
                  VString (Header_Get (resp_header w) (HeaderAuditID E))]])
       \<and> (snd (resolve req) = None \<longrightarrow>
            drop 4 (events_since w (snd (crashHandler E resolve req V w))) =
              [NewRequestInfo req,
               RecordRequestAbort req (fst (resolve req)),
               HandleError abort_report_format
                 [VString (Method req), VString (RequestURI req),
                  VString (Header_Get (resp_header w) (HeaderAuditID E))]])
       \<and> length (metric_calls (events_since w (snd (crashHandler E resolve req V w)))) = 1
       \<and> length (reports (events_since w (snd (crashHandler E resolve req V w)))) = 1"
  using assms
  by (simp add: crashHandler_events events_since_def metric_calls_def reports_def)

theorem resolver_error_is_contained_witness:
  "iface_eq ErrAbortHandler ErrAbortHandler
   \<and> snd (failing_resolver ex_req) \<noteq> None
   \<and> drop 4 (events_since ex_world
        (snd (crashHandler ex_env failing_resolver ex_req ErrAbortHandler ex_world))) =
       [NewRequestInfo ex_req,
        RecordRequestAbort ex_req None,
        HandleError abort_report_format
          [VString ''GET'', VString ''/api/v1/pods'', VString ''a1b2'']]
   \<and> snd (ok_resolver ex_req) = None
   \<and> drop 4 (events_since ex_world
        (snd (crashHandler ex_env ok_resolver ex_req ErrAbortHandler ex_world))) =
       [NewRequestInfo ex_req,
        RecordRequestAbort ex_req (Some \<lparr>Verb = ''get'', Resource = ''pods''\<rparr>),
        HandleError abort_report_format
          [VString ''GET'', VString ''/api/v1/pods'', VString ''a1b2'']]"
proof -
  have h: "iface_eq ErrAbortHandler ErrAbortHandler"
    by (simp add: ErrAbortHandler_def)
  have f: "snd (failing_resolver ex_req) \<noteq> None"
    by (simp add: failing_resolver_def)
  have s: "snd (ok_resolver ex_req) = None"
    by (simp add: ok_resolver_def)
  show ?thesis
    using h f s
      resolver_error_is_contained [where V = ErrAbortHandler and E = ex_env
        and resolve = failing_resolver and req = ex_req and w = ex_world]
      resolver_error_is_contained [where V = ErrAbortHandler and E = ex_env
        and resolve = ok_resolver and req = ex_req and w = ex_world]
    by (simp add: ex_env_def ex_req_def ex_world_def Header_Get_def ok_resolver_def)
qed

text \<open>
  C6. \<open>currentStack\<close> never fails: the slice expression stays within the buffer, so
  the result is always a string. It is one newline followed by the first 50 * 1024 bytes
  of the calling goroutine's stack text (all of it when it is shorter), and the text of
  the other goroutines has no influence on it.
\<close>

theorem currentStack_total_and_bounded:
  "\<exists>s. currentStack E = Inr (CHR 0x0A # s)
       \<and> s = take (50 * 1024) (cur_stack E)
       \<and> length s \<le> 50 * 1024
       \<and> currentStack (E\<lparr>other_stacks := os\<rparr>) = currentStack E"
  by (simp add: currentStack_eq stack_buf_size_def)

theorem currentStack_total_and_bounded_witness:
  "currentStack ex_env = Inr (CHR 0x0A # ''goroutine 7 [running]:'')
   \<and> currentStack (ex_env\<lparr>cur_stack := replicate 60000 (CHR ''g'')\<rparr>) =
       Inr (CHR 0x0A # replicate 51200 (CHR ''g''))"
  using currentStack_total_and_bounded [where E = ex_env]
    currentStack_total_and_bounded [where E = "ex_env\<lparr>cur_stack := replicate 60000 (CHR ''g'')\<rparr>"]
  by (auto simp add: ex_env_def)

text \<open>
  C7. For any two recovered values other than \<open>http.ErrAbortHandler\<close>, whatever the
  captured stacks and the resolver, the crash handler writes the same thing to the
  response: the one \<open>http.Error\<close> call with the fixed body and status 500. The
  response header it leaves is the same for both values too: the header it found, with
  \<open>Content-Length\<close> deleted and \<open>Content-Type\<close> and \<open>X-Content-Type-Options\<close> set to
  the fixed values of \<open>http.Error\<close>. On any path the response writes are either that
  one call or none and the header is either untouched or changed in that fixed way, so
  neither the recovered value nor the stack reaches the client.
\<close>

theorem response_independent_of_panic_value:
  assumes "\<not> iface_eq V1 ErrAbortHandler" and "\<not> iface_eq V2 ErrAbortHandler"
  shows "response_writes (events_since w (snd (crashHandler E1 resolve1 req V1 w))) =
         response_writes (events_since w (snd (crashHandler E2 resolve2 req V2 w)))
       \<and> response_writes (events_since w (snd (crashHandler E1 resolve1 req V1 w))) =
           [HttpError ''This request caused apiserver to panic. Look in the logs for details.'' 500]
       \<and> resp_header (snd (crashHandler E1 resolve1 req V1 w)) =
         resp_header (snd (crashHandler E2 resolve2 req V2 w))
       \<and> resp_header (snd (crashHandler E1 resolve1 req V1 w)) =
           ((resp_header w)(''Content-Length'' := None))
             (''Content-Type'' \<mapsto> [''text/plain; charset=utf-8''],
              ''X-Content-Type-Options'' \<mapsto> [''nosniff''])
       \<and> response_writes (events_since w (snd (crashHandler E1 resolve1 req V3 w))) =
           (if iface_eq V3 ErrAbortHandler then []
            else [HttpError ''This request caused apiserver to panic. Look in the logs for details.'' 500])
       \<and> resp_header (snd (crashHandler E1 resolve1 req V3 w)) =
           (if iface_eq V3 ErrAbortHandler then resp_header w
            else ((resp_header w)(''Content-Length'' := None))
                   (''Content-Type'' \<mapsto> [''text/plain; charset=utf-8''],
                    ''X-Content-Type-Options'' \<mapsto> [''nosniff'']))"
proof -
  have writes: "response_writes (events_since w (snd (crashHandler E resolve req V w))) =
      (if iface_eq V ErrAbortHandler then []
       else [HttpError ''This request caused apiserver to panic. Look in the logs for details.'' 500])"
    for E resolve V
    by (simp add: crashHandler_events events_since_def response_writes_def panic_body_def
        StatusInternalServerError_def)
  have header: "resp_header (snd (crashHandler E resolve req V w)) =
      (if iface_eq V ErrAbortHandler then resp_header w
       else ((resp_header w)(''Content-Length'' := None))
              (''Content-Type'' \<mapsto> [''text/plain; charset=utf-8''],
               ''X-Content-Type-Options'' \<mapsto> [''nosniff'']))"
    for E resolve V
    by (simp add: crashHandler_events error_header_def)
  show ?thesis
    using assms by (simp add: writes header)
qed

theorem response_independent_of_panic_value_witness:
  "\<not> iface_eq (VString ''boom'') ErrAbortHandler
   \<and> \<not> iface_eq (VErrorString 7 ''secret: db password rejected'') ErrAbortHandler
   \<and> response_writes (events_since ex_world
        (snd (crashHandler ex_env ok_resolver ex_req (VString ''boom'') ex_world))) =
      response_writes (events_since ex_world
        (snd (crashHandler ex_env_other failing_resolver ex_req
               (VErrorString 7 ''secret: db password rejected'') ex_world)))
   \<and> response_writes (events_since ex_world
        (snd (crashHandler ex_env ok_resolver ex_req (VString ''boom'') ex_world))) =
       [HttpError ''This request caused apiserver to panic. Look in the logs for details.'' 500]
   \<and> resp_header
        (snd (crashHandler ex_env ok_resolver ex_req (VString ''boom'') ex_world)) =
      resp_header
        (snd (crashHandler ex_env_other failing_resolver ex_req
               (VErrorString 7 ''secret: db password rejected'') ex_world))
   \<and> resp_header
        (snd (crashHandler ex_env ok_resolver ex_req (VString ''boom'') ex_world))
        ''Content-Type'' = Some [''text/plain; charset=utf-8'']
   \<and> resp_header
        (snd (crashHandler ex_env ok_resolver ex_req (VString ''boom'') ex_world))
        ''Audit-ID'' = Some [''a1b2'']"
proof -
  have h1: "\<not> iface_eq (VString ''boom'') ErrAbortHandler"
    by (simp add: ErrAbortHandler_def)
  have h2: "\<not> iface_eq (VErrorString 7 ''secret: db password rejected'') ErrAbortHandler"
    by (simp add: ErrAbortHandler_def ErrAbortHandler_addr_def)
  note t = response_independent_of_panic_value [where ?V1.0 = "VString ''boom''"
        and ?V2.0 = "VErrorString 7 ''secret: db password rejected''" and ?E1.0 = ex_env
        and ?E2.0 = ex_env_other and ?resolve1.0 = ok_resolver and ?resolve2.0 = failing_resolver
        and req = ex_req and w = ex_world and ?V3.0 = "VString ''boom''", OF h1 h2]
  have w: "response_writes (events_since ex_world
        (snd (crashHandler ex_env ok_resolver ex_req (VString ''boom'') ex_world))) =
      response_writes (events_since ex_world
        (snd (crashHandler ex_env_other failing_resolver ex_req
               (VErrorString 7 ''secret: db password rejected'') ex_world)))"
    and b: "response_writes (events_since ex_world
        (snd (crashHandler ex_env ok_resolver ex_req (VString ''boom'') ex_world))) =
       [HttpError ''This request caused apiserver to panic. Look in the logs for details.'' 500]"
    and e: "resp_header
        (snd (crashHandler ex_env ok_resolver ex_req (VString ''boom'') ex_world)) =
      resp_header
        (snd (crashHandler ex_env_other failing_resolver ex_req
               (VErrorString 7 ''secret: db password rejected'') ex_world))"
    and x: "resp_header
        (snd (crashHandler ex_env ok_resolver ex_req (VString ''boom'') ex_world)) =
           ((resp_header ex_world)(''Content-Length'' := None))
             (''Content-Type'' \<mapsto> [''text/plain; charset=utf-8''],
              ''X-Content-Type-Options'' \<mapsto> [''nosniff''])"
    using t by blast+
  have c: "resp_header
        (snd (crashHandler ex_env ok_resolver ex_req (VString ''boom'') ex_world))
        ''Content-Type'' = Some [''text/plain; charset=utf-8'']"
    by (simp add: x)
  have a: "resp_header
        (snd (crashHandler ex_env ok_resolver ex_req (VString ''boom'') ex_world))
        ''Audit-ID'' = Some [''a1b2'']"
    unfolding x by (simp add: ex_world_def)
  from h1 h2 w b e c a show ?thesis by blast
qed

text \<open>
  C8 as stated does not hold. The decorated handler is the one the guard dispatches to,
  so the logging wrapper runs inside the guard: with a logging wrapper that panics in its
  own code after the inner handler has returned, the filter runs the crash handler
  (stack log, 500 response, summary log) and returns, instead of letting the panic pass.
\<close>

theorem logging_wrapper_panic_reaches_crash_handler:
  "ok_handler ex_req ex_world = (Returned, ex_world)
   \<and> panicking_logging ok_handler ex_req ex_world =
       (Panicked (VString ''logging wrapper''), ex_world)
   \<and> WithPanicRecovery ex_env panicking_logging ok_handler ok_resolver ex_req ex_world =
       (Returned,
        ex_world\<lparr>resp_header :=
            [''Audit-ID'' \<mapsto> [''a1b2''],
             ''Content-Type'' \<mapsto> [''text/plain; charset=utf-8''],
             ''X-Content-Type-Options'' \<mapsto> [''nosniff'']],
          trace :=
          [HeaderGet ''Audit-ID'',
           RuntimeStack 51200 False,
           KlogErrorf stack_log_format
             [VString ''GET'', VString ''/api/v1/pods'', VString ''a1b2'',
              VString ''logging wrapper'', VString (CHR 0x0A # ''goroutine 7 [running]:'')],
           HttpError ''This request caused apiserver to panic. Look in the logs for details.'' 500,
           KlogErrorf summary_log_format
             [VString ''GET'', VString ''/api/v1/pods'', VString ''a1b2'']]\<rparr>)
   \<and> WithPanicRecovery ex_env panicking_logging ok_handler ok_resolver ex_req ex_world \<noteq>
       panicking_logging ok_handler ex_req ex_world"
  by (simp add: WithPanicRecovery_def withPanicRecovery_apply panicking_logging_def
      ok_handler_def HandleCrash_Panicked crashHandler_events ErrAbortHandler_def
      ex_env_def ex_req_def ex_world_def Header_Get_def stack_buf_size_def panic_body_def
      StatusInternalServerError_def error_header_def fun_upd_idem_iff)

text \<open>
  C8, amended. The logging decorator is applied once, when the filter is built, and the
  guard is placed around the decorated handler: the filter over \<open>inner\<close> is the bare
  guard over \<open>withLogging inner\<close>. A panic raised by the logging wrapper's own
  execution, with the inner handler returning normally, is therefore passed to the crash
  callback exactly like a panic of the inner handler.
\<close>

theorem logging_runs_inside_guard:
  "withPanicRecovery withLogging rc inner onCrash =
     withPanicRecovery (\<lambda>h. h) rc (withLogging inner) onCrash
   \<and> (inner req w = (Returned, w1) \<and> withLogging inner req w = (Panicked v, w') \<longrightarrow>
        withPanicRecovery withLogging rc inner onCrash req w =
          (case onCrash req v w' of
             (Panicked v', w'') \<Rightarrow> (Panicked v', w'')
           | (Returned, w'') \<Rightarrow> if rc then (Panicked v, w'') else (Returned, w''))
        \<and> take 3 (events_since w'
             (snd (WithPanicRecovery E withLogging inner resolve req w))) =
            [HeaderGet (HeaderAuditID E),
             RuntimeStack (50 * 1024) False,
             KlogErrorf stack_log_format
               [VString (Method req), VString (RequestURI req),
                VString (Header_Get (resp_header w') (HeaderAuditID E)), v,
                VString (CHR 0x0A # take (50 * 1024) (cur_stack E))]])"
  by (auto simp add: WithPanicRecovery_def withPanicRecovery_def Let_def HandleCrash_Panicked
      crashHandler_events events_since_def stack_buf_size_def)

theorem logging_runs_inside_guard_witness:
  "ok_handler ex_req ex_world = (Returned, ex_world)
   \<and> panicking_logging ok_handler ex_req ex_world =
       (Panicked (VString ''logging wrapper''), ex_world)
   \<and> withPanicRecovery panicking_logging False ok_handler tick_handler ex_req ex_world =
       (Returned, ex_world\<lparr>trace := [KlogErrorf ''tick'' [VString ''logging wrapper'']]\<rparr>)"
proof -
  have h1: "ok_handler ex_req ex_world = (Returned, ex_world)"
    by (simp add: ok_handler_def)
  have h2: "panicking_logging ok_handler ex_req ex_world =
       (Panicked (VString ''logging wrapper''), ex_world)"
    by (simp add: panicking_logging_def ok_handler_def)
  have "withPanicRecovery panicking_logging False ok_handler tick_handler ex_req ex_world =
          (case tick_handler ex_req (VString ''logging wrapper'') ex_world of
             (Panicked v', w'') \<Rightarrow> (Panicked v', w'')
           | (Returned, w'') \<Rightarrow>
               if False then (Panicked (VString ''logging wrapper''), w'') else (Returned, w''))"
    using h1 h2 logging_runs_inside_guard [where withLogging = panicking_logging
        and inner = ok_handler and req = ex_req and w = ex_world and ?w1.0 = ex_world
        and w' = ex_world and v = "VString ''logging wrapper''" and rc = False
        and onCrash = tick_handler and E = ex_env and resolve = ok_resolver]
    by blast
  then show ?thesis
    using h1 h2 by (simp add: tick_handler_def emit_def ex_world_def)
qed

text \<open>
  C9. The recovered value is classified by Go's \<open>==\<close> against the one pointer
  \<open>http.ErrAbortHandler\<close>: it takes the abort path exactly when it is that pointer. A
  different \<open>errorString\<close> with the same text, and an error wrapping
  \<open>http.ErrAbortHandler\<close>, are both answered with the 500 response and record no abort
  metric; the sentinel itself writes no response and records the metric once.
\<close>

theorem classification_is_pointer_identity:
  "(iface_eq V ErrAbortHandler \<longleftrightarrow> (\<exists>m. V = VErrorString ErrAbortHandler_addr m))
   \<and> (p \<noteq> ErrAbortHandler_addr \<longrightarrow>
        \<not> iface_eq (VErrorString p ''net/http: abort Handler'') ErrAbortHandler
        \<and> response_writes (events_since w
            (snd (crashHandler E resolve req (VErrorString p ''net/http: abort Handler'') w))) =
           [HttpError panic_body 500]
        \<and> metric_calls (events_since w
            (snd (crashHandler E resolve req (VErrorString p ''net/http: abort Handler'') w))) = [])
   \<and> \<not> iface_eq (VWrapError q m ErrAbortHandler) ErrAbortHandler
   \<and> response_writes (events_since w
        (snd (crashHandler E resolve req (VWrapError q m ErrAbortHandler) w))) =
       [HttpError panic_body 500]
   \<and> metric_calls (events_since w
        (snd (crashHandler E resolve req (VWrapError q m ErrAbortHandler) w))) = []
   \<and> iface_eq ErrAbortHandler ErrAbortHandler
   \<and> response_writes (events_since w
        (snd (crashHandler E resolve req ErrAbortHandler w))) = []
   \<and> length (metric_calls (events_since w
        (snd (crashHandler E resolve req ErrAbortHandler w)))) = 1"
proof -
  have cls: "iface_eq V ErrAbortHandler \<longleftrightarrow> (\<exists>m. V = VErrorString ErrAbortHandler_addr m)"
    by (cases V) (auto simp add: ErrAbortHandler_def)
  have other: "p \<noteq> ErrAbortHandler_addr \<Longrightarrow>
      \<not> iface_eq (VErrorString p ''net/http: abort Handler'') ErrAbortHandler"
    by (simp add: ErrAbortHandler_def)
  have wrap: "\<not> iface_eq (VWrapError q m ErrAbortHandler) ErrAbortHandler"
    by (simp add: ErrAbortHandler_def)
  have self: "iface_eq ErrAbortHandler ErrAbortHandler"
    by (simp add: ErrAbortHandler_def)
  show ?thesis
    using cls other wrap self
    by (simp add: crashHandler_events events_since_def response_writes_def metric_calls_def
        StatusInternalServerError_def)
qed

theorem classification_is_pointer_identity_witness:
  "(2::nat) \<noteq> ErrAbortHandler_addr
   \<and> \<not> iface_eq (VErrorString 2 ''net/http: abort Handler'') ErrAbortHandler
   \<and> response_writes (events_since ex_world
        (snd (crashHandler ex_env ok_resolver ex_req
               (VErrorString 2 ''net/http: abort Handler'') ex_world))) =
       [HttpError panic_body 500]
   \<and> response_writes (events_since ex_world
        (snd (crashHandler ex_env ok_resolver ex_req
               (VWrapError 3 ''handler gave up: net/http: abort Handler'' ErrAbortHandler)
               ex_world))) =
       [HttpError panic_body 500]
   \<and> response_writes (events_since ex_world
        (snd (crashHandler ex_env ok_resolver ex_req ErrAbortHandler ex_world))) = []"
proof -
  have h: "(2::nat) \<noteq> ErrAbortHandler_addr"
    by (simp add: ErrAbortHandler_addr_def)
  show ?thesis
    using h classification_is_pointer_identity [where p = 2 and E = ex_env
        and resolve = ok_resolver and req = ex_req and w = ex_world and q = 3
        and m = "''handler gave up: net/http: abort Handler''"]
    by simp
qed

text \<open>
  C10. The crash handler reads the audit header once, as its first call, and the value
  \<open>a\<close> read there is the audit ID argument of the unconditional log, of the abort log
  and the report on the abort path, and of the summary log on the generic path. When
  the header is absent, \<open>a\<close> is the empty string.
\<close>

theorem audit_id_is_one_snapshot:
  assumes "a = Header_Get (resp_header w) (HeaderAuditID E)"
    and "evs = events_since w (snd (crashHandler E resolve req err w))"
  shows "header_reads evs = [HeaderGet (HeaderAuditID E)]
       \<and> take 1 evs = [HeaderGet (HeaderAuditID E)]
       \<and> (iface_eq err ErrAbortHandler \<longrightarrow>
            log_records evs =
              [KlogErrorf stack_log_format
                 [VString (Method req), VString (RequestURI req), VString a, err,
                  VString (CHR 0x0A # take (50 * 1024) (cur_stack E))],
               KlogErrorf abort_log_format
                 [VString (Method req), VString (RequestURI req), VString a, err]]
            \<and> reports evs =
              [HandleError abort_report_format
                 [VString (Method req), VString (RequestURI req), VString a]])
       \<and> (\<not> iface_eq err ErrAbortHandler \<longrightarrow>
            log_records evs =
              [KlogErrorf stack_log_format
                 [VString (Method req), VString (RequestURI req), VString a, err,
                  VString (CHR 0x0A # take (50 * 1024) (cur_stack E))],
               KlogErrorf summary_log_format
                 [VString (Method req), VString (RequestURI req), VString a]]
            \<and> reports evs = [])
       \<and> (resp_header w (HeaderAuditID E) = None \<longrightarrow> a = [])"
  using assms
  by (simp add: crashHandler_events events_since_def header_reads_def log_records_def
      reports_def stack_buf_size_def Header_Get_def)

theorem audit_id_is_one_snapshot_witness:
  "''a1b2'' = Header_Get (resp_header ex_world) (HeaderAuditID ex_env)
   \<and> iface_eq ErrAbortHandler ErrAbortHandler
   \<and> log_records (events_since ex_world
        (snd (crashHandler ex_env ok_resolver ex_req ErrAbortHandler ex_world))) =
       [KlogErrorf stack_log_format
          [VString ''GET'', VString ''/api/v1/pods'', VString ''a1b2'', ErrAbortHandler,
           VString (CHR 0x0A # ''goroutine 7 [running]:'')],
        KlogErrorf abort_log_format
          [VString ''GET'', VString ''/api/v1/pods'', VString ''a1b2'', ErrAbortHandler]]
   \<and> reports (events_since ex_world
        (snd (crashHandler ex_env ok_resolver ex_req ErrAbortHandler ex_world))) =
       [HandleError abort_report_format
          [VString ''GET'', VString ''/api/v1/pods'', VString ''a1b2'']]
   \<and> resp_header ex_world_no_audit (HeaderAuditID ex_env) = None
   \<and> \<not> iface_eq (VString ''boom'') ErrAbortHandler
   \<and> log_records (events_since ex_world_no_audit
        (snd (crashHandler ex_env ok_resolver ex_req (VString ''boom'') ex_world_no_audit))) =
       [KlogErrorf stack_log_format
          [VString ''GET'', VString ''/api/v1/pods'', VString '''', VString ''boom'',
           VString (CHR 0x0A # ''goroutine 7 [running]:'')],
        KlogErrorf summary_log_format
          [VString ''GET'', VString ''/api/v1/pods'', VString '''']]"
proof -
  have a1: "''a1b2'' = Header_Get (resp_header ex_world) (HeaderAuditID ex_env)"
    by (simp add: Header_Get_def ex_world_def ex_env_def)
  have h1: "iface_eq ErrAbortHandler ErrAbortHandler"
    by (simp add: ErrAbortHandler_def)
  have n: "resp_header ex_world_no_audit (HeaderAuditID ex_env) = None"
    by (simp add: ex_world_no_audit_def)
  have h2: "\<not> iface_eq (VString ''boom'') ErrAbortHandler"
    by (simp add: ErrAbortHandler_def)
  have e1: "HeaderAuditID ex_env = ''Audit-ID''" "cur_stack ex_env = ''goroutine 7 [running]:''"
    "Method ex_req = ''GET''" "RequestURI ex_req = ''/api/v1/pods''"
    by (simp_all add: ex_env_def ex_req_def)
  show ?thesis
    using a1 h1 n h2
      audit_id_is_one_snapshot [OF a1 refl, where resolve = ok_resolver and req = ex_req
        and err = ErrAbortHandler]
      audit_id_is_one_snapshot [OF refl refl, where w = ex_world_no_audit and E = ex_env
        and resolve = ok_resolver and req = ex_req and err = "VString ''boom''"]
    by (simp add: e1 Header_Get_def)
qed

end
